theory Spec2Isabelle
  imports Complex_Main
begin

section \<open>JavaScript numbers\<close>

text \<open>
  The values of \<^verbatim>\<open>src/js/main.js\<close> are JavaScript numbers. A number is modelled as a
  finite rational or one of the three special values of IEEE arithmetic. Arithmetic on
  the finite values is exact: the rounding of a double to 53 bits and the sign of zero
  are not represented. Division by zero and the arithmetic of the special values follow
  JavaScript, so a computation that yields \<^verbatim>\<open>NaN\<close> or \<^verbatim>\<open>Infinity\<close> in the program
  yields it in the model.
\<close>

datatype number = Fin rat | PInf | NInf | NaN



instantiation number :: "{plus, uminus, minus, times, divide}"
begin

fun plus_number :: "number \<Rightarrow> number \<Rightarrow> number" where
  "plus_number NaN _ = NaN"
| "plus_number _ NaN = NaN"
| "plus_number (Fin a) (Fin b) = Fin (a + b)"
| "plus_number PInf NInf = NaN"
| "plus_number NInf PInf = NaN"
| "plus_number PInf _ = PInf"
| "plus_number _ PInf = PInf"
| "plus_number NInf _ = NInf"
| "plus_number _ NInf = NInf"

fun uminus_number :: "number \<Rightarrow> number" where
  "uminus_number (Fin a) = Fin (- a)"
| "uminus_number PInf = NInf"
| "uminus_number NInf = PInf"
| "uminus_number NaN = NaN"

definition minus_number :: "number \<Rightarrow> number \<Rightarrow> number" where
  "minus_number (x::number) y = x + (- y)"

text \<open>The sign of a product or quotient with an infinite operand.\<close>

fun signed_inf :: "bool \<Rightarrow> number" where
  "signed_inf True = PInf"
| "signed_inf False = NInf"

fun times_number :: "number \<Rightarrow> number \<Rightarrow> number" where
  "times_number NaN _ = NaN"
| "times_number _ NaN = NaN"
| "times_number (Fin a) (Fin b) = Fin (a * b)"
| "times_number (Fin a) PInf = (if a = 0 then NaN else signed_inf (0 < a))"
| "times_number (Fin a) NInf = (if a = 0 then NaN else signed_inf (a < 0))"
| "times_number PInf (Fin b) = (if b = 0 then NaN else signed_inf (0 < b))"
| "times_number NInf (Fin b) = (if b = 0 then NaN else signed_inf (b < 0))"
| "times_number PInf PInf = PInf"
| "times_number NInf NInf = PInf"
| "times_number PInf NInf = NInf"
| "times_number NInf PInf = NInf"

fun divide_number :: "number \<Rightarrow> number \<Rightarrow> number" where
  "divide_number NaN _ = NaN"
| "divide_number _ NaN = NaN"
| "divide_number (Fin a) (Fin b) =
     (if b = 0 then (if a = 0 then NaN else signed_inf (0 < a)) else Fin (a / b))"
| "divide_number (Fin a) _ = Fin 0"
| "divide_number PInf (Fin b) = signed_inf (0 \<le> b)"
| "divide_number NInf (Fin b) = signed_inf (b < 0)"
| "divide_number _ _ = NaN"

instance ..

end

instantiation number :: inverse
begin

definition inverse_number :: "number \<Rightarrow> number" where
  "inverse_number x = divide (Fin 1) x"

instance ..

end

text \<open>
  \<^verbatim>\<open>Math.max(...xs)\<close>: \<^verbatim>\<open>-Infinity\<close> for no argument, \<^verbatim>\<open>NaN\<close> as soon as one
  argument is \<^verbatim>\<open>NaN\<close>, the largest argument otherwise.
\<close>

fun max2 :: "number \<Rightarrow> number \<Rightarrow> number" where
  "max2 NaN _ = NaN"
| "max2 _ NaN = NaN"
| "max2 PInf _ = PInf"
| "max2 _ PInf = PInf"
| "max2 NInf y = y"
| "max2 x NInf = x"
| "max2 (Fin a) (Fin b) = Fin (max a b)"

definition Math_max :: "number list \<Rightarrow> number" where
  "Math_max xs = foldl max2 NInf xs"

text \<open>
  Modelled from the spec: \<^verbatim>\<open>roundPoint\<close> is imported from \<^verbatim>\<open>./number\<close>, which is not
  among the sources. The specification (section 6) has every coordinate and percentage
  rounded to the nearest integer, halves away from zero. A value that is not finite has
  no nearest integer and is passed on as it is.
\<close>

definition round_half_away :: "rat \<Rightarrow> int" where
  "round_half_away x = (if 0 \<le> x then \<lfloor>x + 1 / 2\<rfloor> else - \<lfloor>- x + 1 / 2\<rfloor>)"

fun roundPoint :: "number \<Rightarrow> number" where
  "roundPoint (Fin a) = Fin (of_int (round_half_away a))"
| "roundPoint x = x"

section \<open>Untyped values\<close>

text \<open>
  The options of the constructor and the argument of \<^verbatim>\<open>updateData\<close> are untyped
  JavaScript values.
\<close>

datatype jsval =
    Undefined
  | Null
  | Bool bool
  | Num number
  | Str string
  | Arr "jsval list"
  | Obj "(string \<times> jsval) list"

text \<open>The conversion to a boolean of \<^verbatim>\<open>!x\<close>, \<^verbatim>\<open>x && y\<close> and \<^verbatim>\<open>x || y\<close>.\<close>

fun truthy :: "jsval \<Rightarrow> bool" where
  "truthy Undefined = False"
| "truthy Null = False"
| "truthy (Bool b) = b"
| "truthy (Num n) = (n \<noteq> Fin 0 \<and> n \<noteq> NaN)"
| "truthy (Str s) = (s \<noteq> [])"
| "truthy (Arr _) = True"
| "truthy (Obj _) = True"

section \<open>The graph\<close>

text \<open>
  \<^verbatim>\<open>this.values\<close> is an array of numbers, or an array of arrays of numbers; the test
  \<^verbatim>\<open>this.values[0] instanceof Array\<close> of \<^verbatim>\<open>getGraphType\<close> tells them apart, so a
  two-dimensional value has a first row. Arrays that mix numbers and arrays are outside
  the type.
\<close>

datatype dataset = OneD "number list" | TwoD "number list" "number list list"

datatype direction = Horizontal | Vertical

text \<open>
  The fields of a \<^verbatim>\<open>FunnelGraph\<close> that the geometry reads (\<open>values'\<close> is
  \<^verbatim>\<open>this.values\<close>). \<^verbatim>\<open>width\<close> and
  \<^verbatim>\<open>height\<close> are \<open>None\<close> when the option is undefined. \<open>clientWidth\<close> and
  \<open>clientHeight\<close> are the layout size of \<^verbatim>\<open>this.graphContainer\<close>, which the browser
  supplies. \<open>svg\<close> is the \<^verbatim>\<open>svg\<close> element of the container, as the list of the
  \<^verbatim>\<open>d\<close> attributes of its \<^verbatim>\<open>path\<close> children (empty while unset), and \<open>None\<close>
  while the container holds no such element. Labels and colours are text and paint;
  they are not represented.
\<close>

datatype instr =
    MoveTo number number
  | CurveTo number number number number number number
  | LineTo number number
  | ClosePath

record graph =
  containerSelector :: jsval
  gradientDirection :: direction
  direction :: direction
  values' :: dataset
  percentages :: "number list"
  height :: "number option"
  width :: "number option"
  clientWidth :: number
  clientHeight :: number
  svg :: "instr list list option"

definition is2d :: "graph \<Rightarrow> bool" where
  "is2d g = (case values' g of OneD _ \<Rightarrow> False | TwoD _ _ \<Rightarrow> True)"

definition isVertical :: "graph \<Rightarrow> bool" where
  "isVertical g = (direction g = Vertical)"

definition getDataSize :: "graph \<Rightarrow> nat" where
  "getDataSize g = (case values' g of OneD vs \<Rightarrow> length vs | TwoD r rs \<Rightarrow> length (r # rs))"

text \<open>\<^verbatim>\<open>this.values[0].length\<close>; called for two-dimensional values only.\<close>

definition getSubDataSize :: "graph \<Rightarrow> nat" where
  "getSubDataSize g = (case values' g of OneD _ \<Rightarrow> 0 | TwoD r _ \<Rightarrow> length r)"

text \<open>\<^verbatim>\<open>a || b\<close> on numbers: \<open>0\<close>, \<^verbatim>\<open>NaN\<close> and undefined are falsy.\<close>

definition or_else :: "number option \<Rightarrow> number \<Rightarrow> number" where
  "or_else a b = (case a of None \<Rightarrow> b | Some x \<Rightarrow> if x = Fin 0 \<or> x = NaN then b else x)"

definition getWidth :: "graph \<Rightarrow> number" where
  "getWidth g = or_else (width g) (clientWidth g)"

definition getHeight :: "graph \<Rightarrow> number" where
  "getHeight g = or_else (height g) (clientHeight g)"

definition getFullDimension :: "graph \<Rightarrow> number" where
  "getFullDimension g = (if isVertical g then getWidth g else getHeight g)"

definition getMainAxisPoints :: "graph \<Rightarrow> number list" where
  "getMainAxisPoints g =
     (let size = getDataSize g;
          fullDimension = (if isVertical g then getHeight g else getWidth g)
      in map (\<lambda>i. roundPoint (fullDimension * Fin (of_nat i) / Fin (of_nat size)))
           [0 ..< size + 1])"

text \<open>
  A read \<^verbatim>\<open>xs[i]\<close> that feeds arithmetic: past the end it is undefined, which every
  arithmetic operator turns into \<^verbatim>\<open>NaN\<close>. \<^verbatim>\<open>[...xs].pop()\<close> likewise, on the last
  element.
\<close>

definition elem :: "number list \<Rightarrow> nat \<Rightarrow> number" where
  "elem xs i = (if i < length xs then xs ! i else NaN)"

definition pop :: "number list \<Rightarrow> number" where
  "pop xs = (if xs = [] then NaN else last xs)"

text \<open>\<^verbatim>\<open>valueSet.reduce((sum, value) => sum + value, 0)\<close>\<close>

definition row_total :: "number list \<Rightarrow> number" where
  "row_total valueSet = foldl (+) (Fin 0) valueSet"

text \<open>The rows of a two-dimensional value; the callers test \<open>is2d\<close> first.\<close>

definition rows :: "graph \<Rightarrow> number list list" where
  "rows g = (case values' g of OneD _ \<Rightarrow> [] | TwoD r rs \<Rightarrow> r # rs)"

text \<open>\<^verbatim>\<open>[...this.values]\<close> of the branches for a one-dimensional value.\<close>

definition scalars :: "graph \<Rightarrow> number list" where
  "scalars g = (case values' g of OneD vs \<Rightarrow> vs | TwoD _ _ \<Rightarrow> [])"

definition getValues2d :: "graph \<Rightarrow> number list" where
  "getValues2d g = map row_total (rows g)"

definition getPercentages2d :: "graph \<Rightarrow> number list list" where
  "getPercentages2d g =
     map (\<lambda>valueSet. map (\<lambda>value. roundPoint (value * Fin 100 / row_total valueSet)) valueSet)
       (rows g)"

definition createPercentages :: "graph \<Rightarrow> number list" where
  "createPercentages g =
     (let vs = (if is2d g then getValues2d g else scalars g);
          mx = Math_max vs
      in map (\<lambda>value. roundPoint (value * Fin 100 / mx)) vs)"

text \<open>
  The body of the loop over \<open>i\<close> in \<^verbatim>\<open>getCrossAxisPoints\<close>: the boundary that follows
  \<open>p = points[i - 1]\<close>, with its last value duplicated.
\<close>

definition newPoints ::
  "number \<Rightarrow> number list \<Rightarrow> number list list \<Rightarrow> nat \<Rightarrow> number list \<Rightarrow> nat \<Rightarrow> number list"
where
  "newPoints fullDimension pointsOfFirstPath percentagesFull dataSize p i =
     (let np = map (\<lambda>j. roundPoint
                 (elem p j + (fullDimension - elem pointsOfFirstPath j * Fin 2)
                    * (elem (percentagesFull ! j) (i - 1) / Fin 100)))
               [0 ..< dataSize]
      in np @ [pop np])"

definition getCrossAxisPoints :: "graph \<Rightarrow> number list list" where
  "getCrossAxisPoints g =
     (let fullDimension = getFullDimension g;
          dimension = fullDimension / Fin 2
      in if is2d g then
           (let totalValues0 = getValues2d g;
                mx = Math_max totalValues0;
                totalValues = totalValues0 @ [pop totalValues0];
                pointsOfFirstPath =
                  map (\<lambda>value. roundPoint ((mx - value) / mx * dimension)) totalValues;
                percentagesFull = getPercentages2d g;
                points =
                  foldl (\<lambda>points i. points @
                      [newPoints fullDimension pointsOfFirstPath percentagesFull
                         (getDataSize g) (points ! (i - 1)) i])
                    [pointsOfFirstPath] [1 ..< getSubDataSize g]
            in points @ [map (\<lambda>point. fullDimension - point) pointsOfFirstPath])
         else
           (let mx = Math_max (scalars g);
                vs = scalars g @ [pop (scalars g)];
                top = map (\<lambda>value. roundPoint ((mx - value) / mx * dimension)) vs
            in [top, map (\<lambda>point. fullDimension - point) top]))"

section \<open>Outlines\<close>

text \<open>
  An outline is the list of the drawing instructions that the program concatenates into
  the \<^verbatim>\<open>d\<close> attribute of a path; the printing of a number as text is not modelled.

  Modelled from the spec: \<^verbatim>\<open>createCurves\<close> and \<^verbatim>\<open>createVerticalCurves\<close> are imported
  from \<^verbatim>\<open>./path\<close>, which is not among the sources. The specification (section 4.4)
  describes a cubic curve whose control points are offset from the end points along the
  main axis by a fixed fraction of the span between them, each control point keeping the
  cross coordinate of its end point, and (section 6) has every coordinate rounded. The
  specification does not give the fraction: it is the argument \<open>t\<close>.
\<close>

definition createCurves :: "number \<Rightarrow> number \<Rightarrow> number \<Rightarrow> number \<Rightarrow> number \<Rightarrow> instr" where
  "createCurves t x1 y1 x2 y2 =
     CurveTo (roundPoint (x1 + (x2 - x1) * t)) y1 (roundPoint (x2 - (x2 - x1) * t)) y2 x2 y2"

definition createVerticalCurves ::
  "number \<Rightarrow> number \<Rightarrow> number \<Rightarrow> number \<Rightarrow> number \<Rightarrow> instr"
where
  "createVerticalCurves t x1 y1 x2 y2 =
     CurveTo x1 (roundPoint (y1 + (y2 - y1) * t)) x2 (roundPoint (y2 - (y2 - y1) * t)) x2 y2"

datatype error =
    DataMissing
  | ContainerMissing
  | NoSVG
  | TypeError
  | Unsupported

text \<open>
  \<open>DataMissing\<close>, \<open>ContainerMissing\<close> and \<open>NoSVG\<close> are the three \<^verbatim>\<open>throw new Error\<close> of
  the program. \<open>TypeError\<close> is what JavaScript raises on a property read of undefined.
  \<open>Unsupported\<close> is not an error of the program: it marks an input whose treatment rests
  on JavaScript's implicit conversions, which this development does not follow.
\<close>

definition andThen :: "error + 'a \<Rightarrow> ('a \<Rightarrow> error + 'b) \<Rightarrow> error + 'b" where
  "andThen r f = (case r of Inl e \<Rightarrow> Inl e | Inr x \<Rightarrow> f x)"

fun collect :: "(error + 'a) list \<Rightarrow> error + 'a list" where
  "collect [] = Inr []"
| "collect (r # rs) =
     (case r of Inl e \<Rightarrow> Inl e
      | Inr x \<Rightarrow> (case collect rs of Inl e \<Rightarrow> Inl e | Inr xs \<Rightarrow> Inr (x # xs)))"

text \<open>
  \<^verbatim>\<open>createPath(index)\<close>. When \<open>index\<close> or \<open>index + 1\<close> is not a boundary, \<^verbatim>\<open>Y\<close> or
  \<^verbatim>\<open>YNext\<close> is undefined and reading it raises. All the boundaries and \<^verbatim>\<open>X\<close> have the
  same length, so the other reads are in range.
\<close>

definition createPath :: "number \<Rightarrow> graph \<Rightarrow> nat \<Rightarrow> error + instr list" where
  "createPath t g index =
     (let X = getMainAxisPoints g;
          points = getCrossAxisPoints g
      in if index + 1 < length points then
           (let Y = points ! index;
                YNext = points ! (index + 1)
            in Inr ([MoveTo (X ! 0) (Y ! 0)]
                 @ map (\<lambda>i. createCurves t (X ! i) (Y ! i) (X ! (i + 1)) (Y ! (i + 1)))
                     [0 ..< length X - 1]
                 @ [LineTo (last X) (last YNext)]
                 @ map (\<lambda>i. createCurves t (X ! i) (YNext ! i) (X ! (i - 1)) (YNext ! (i - 1)))
                     (rev [1 ..< length X])
                 @ [ClosePath]))
         else Inl TypeError)"

definition createVerticalPath :: "number \<Rightarrow> graph \<Rightarrow> nat \<Rightarrow> error + instr list" where
  "createVerticalPath t g index =
     (let points = getCrossAxisPoints g;
          Y = getMainAxisPoints g
      in if index + 1 < length points then
           (let X = points ! index;
                XNext = points ! (index + 1)
            in Inr ([MoveTo (X ! 0) (Y ! 0)]
                 @ map (\<lambda>i. createVerticalCurves t (X ! i) (Y ! i) (X ! (i + 1)) (Y ! (i + 1)))
                     [0 ..< length X - 1]
                 @ [LineTo (last XNext) (last Y)]
                 @ map (\<lambda>i. createVerticalCurves t (XNext ! i) (Y ! i) (XNext ! (i - 1))
                              (Y ! (i - 1)))
                     (rev [1 ..< length X])
                 @ [ClosePath]))
         else Inl TypeError)"

section \<open>Drawing and the methods that redraw\<close>

definition getSVG :: "graph \<Rightarrow> error + instr list list" where
  "getSVG g = (case svg g of None \<Rightarrow> Inl NoSVG | Some paths \<Rightarrow> Inr paths)"

text \<open>
  \<^verbatim>\<open>makeSVG\<close> appends an \<^verbatim>\<open>svg\<close> element with one \<^verbatim>\<open>path\<close> for each pair of
  neighbouring boundaries. \<^verbatim>\<open>getSVG\<close> returns the first \<^verbatim>\<open>svg\<close> of the container, so
  an element that is already there stays the one that is drawn on.
\<close>

definition makeSVG :: "graph \<Rightarrow> graph" where
  "makeSVG g =
     (let valuesNum = length (getCrossAxisPoints g) - 1
      in case svg g of
           None \<Rightarrow> g\<lparr>svg := Some (replicate valuesNum [])\<rparr>
         | Some _ \<Rightarrow> g)"

definition drawPaths :: "number \<Rightarrow> graph \<Rightarrow> error + graph" where
  "drawPaths t g =
     andThen (getSVG g) (\<lambda>paths.
     andThen (collect (map (\<lambda>i. if isVertical g then createVerticalPath t g i
                                 else createPath t g i) [0 ..< length paths])) (\<lambda>ds.
     Inr (g\<lparr>svg := Some ds\<rparr>)))"

definition makeVertical :: "number \<Rightarrow> graph \<Rightarrow> error + graph" where
  "makeVertical t g =
     (if direction g = Vertical then Inr g
      else andThen (getSVG (g\<lparr>direction := Vertical\<rparr>)) (\<lambda>_.
           drawPaths t (g\<lparr>direction := Vertical\<rparr>)))"

definition makeHorizontal :: "number \<Rightarrow> graph \<Rightarrow> error + graph" where
  "makeHorizontal t g =
     (if direction g = Horizontal then Inr g
      else andThen (getSVG (g\<lparr>direction := Horizontal\<rparr>)) (\<lambda>_.
           drawPaths t (g\<lparr>direction := Horizontal\<rparr>)))"

definition toggleDirection :: "number \<Rightarrow> graph \<Rightarrow> error + graph" where
  "toggleDirection t g =
     (if direction g = Horizontal then makeVertical t g else makeHorizontal t g)"

section \<open>Raw input\<close>

text \<open>
  The static methods that read the options, the constructor and \<^verbatim>\<open>updateData\<close> work on
  untyped values. What they return as values is typed by \<open>dataset_of\<close> before the
  geometry sees it.

  A property read \<^verbatim>\<open>x.k\<close>, for the names this program reads (\<^verbatim>\<open>data\<close>, \<^verbatim>\<open>value\<close>,
  \<^verbatim>\<open>values\<close>, \<^verbatim>\<open>labels\<close>, \<^verbatim>\<open>subLabels\<close>, \<^verbatim>\<open>direction\<close> and so on), none of which a
  primitive value or an array has.
\<close>

fun property :: "jsval \<Rightarrow> string \<Rightarrow> error + jsval" where
  "property Undefined k = Inl TypeError"
| "property Null k = Inl TypeError"
| "property (Obj fs) k = (case map_of fs k of None \<Rightarrow> Inr Undefined | Some v \<Rightarrow> Inr v)"
| "property _ k = Inr Undefined"

text \<open>\<^verbatim>\<open>xs[0]\<close> of an array.\<close>

fun first :: "jsval list \<Rightarrow> jsval" where
  "first [] = Undefined"
| "first (x # _) = x"

fun isInteger :: "jsval \<Rightarrow> bool" where
  "isInteger (Num (Fin a)) = (a = of_int \<lfloor>a\<rfloor>)"
| "isInteger _ = False"

text \<open>\<^verbatim>\<open>getValues(options)\<close>, \<^verbatim>\<open>getLabels(options)\<close> and \<^verbatim>\<open>getSubLabels(options)\<close>
  as functions of \<^verbatim>\<open>options.data\<close>.\<close>

definition getValues :: "jsval \<Rightarrow> error + jsval" where
  "getValues data =
     (if \<not> truthy data then Inr (Arr [])
      else case data of
          Arr items \<Rightarrow>
            if isInteger (first items) then Inr data
            else andThen (collect (map (\<lambda>item. property item ''value'') items))
                   (\<lambda>vs. Inr (Arr vs))
        | Obj _ \<Rightarrow> property data ''values''
        | _ \<Rightarrow> Inr (Arr []))"

definition getLabels :: "jsval \<Rightarrow> error + jsval" where
  "getLabels data =
     (if \<not> truthy data then Inl DataMissing
      else andThen (property data ''labels'')
             (\<lambda>l. if l = Undefined then Inr (Arr []) else Inr l))"

definition getSubLabels :: "jsval \<Rightarrow> error + jsval" where
  "getSubLabels data =
     (if \<not> truthy data then Inl DataMissing
      else andThen (property data ''subLabels'')
             (\<lambda>l. if l = Undefined then Inr (Arr []) else Inr l))"

text \<open>
  The values the geometry is defined on: an array of numbers, or a non-empty array of
  arrays of numbers. What the program does with any other value depends on implicit
  conversions and is \<open>Unsupported\<close> here.
\<close>

fun numbers :: "jsval list \<Rightarrow> number list option" where
  "numbers [] = Some []"
| "numbers (Num n # xs) = (case numbers xs of None \<Rightarrow> None | Some ns \<Rightarrow> Some (n # ns))"
| "numbers (_ # xs) = None"

fun numberRows :: "jsval list \<Rightarrow> number list list option" where
  "numberRows [] = Some []"
| "numberRows (Arr r # xs) =
     (case numbers r of None \<Rightarrow> None
      | Some ns \<Rightarrow> (case numberRows xs of None \<Rightarrow> None | Some nss \<Rightarrow> Some (ns # nss)))"
| "numberRows (_ # xs) = None"

definition dataset_of :: "jsval \<Rightarrow> error + dataset" where
  "dataset_of v =
     (case v of
        Arr xs \<Rightarrow>
          (case numbers xs of
             Some ns \<Rightarrow> Inr (OneD ns)
           | None \<Rightarrow>
               (case numberRows xs of
                  Some (r # rs) \<Rightarrow> Inr (TwoD r rs)
                | _ \<Rightarrow> Inl Unsupported))
      | _ \<Rightarrow> Inl Unsupported)"

text \<open>An optional number: \<^verbatim>\<open>options.width\<close>, \<^verbatim>\<open>options.height\<close>.\<close>

fun size_of :: "jsval \<Rightarrow> error + number option" where
  "size_of Undefined = Inr None"
| "size_of (Num n) = Inr (Some n)"
| "size_of _ = Inl Unsupported"

text \<open>
  The constructor. Its second argument is the layout size of the element that
  \<^verbatim>\<open>options.container\<close> selects, which the geometry reads through
  \<^verbatim>\<open>this.graphContainer\<close> when no width or height is given. A new graph has no \<^verbatim>\<open>svg\<close>
  element yet.
\<close>

definition constructor :: "jsval \<Rightarrow> number \<times> number \<Rightarrow> error + graph" where
  "constructor options layout =
     andThen (property options ''container'') (\<lambda>sel.
     andThen (property options ''gradientDirection'') (\<lambda>gd.
     andThen (property options ''direction'') (\<lambda>dir.
     andThen (property options ''data'') (\<lambda>data.
     andThen (getLabels data) (\<lambda>_.
     andThen (getSubLabels data) (\<lambda>_.
     andThen (getValues data) (\<lambda>vals.
     andThen (dataset_of vals) (\<lambda>ds.
     andThen (property options ''height'') (\<lambda>h.
     andThen (size_of h) (\<lambda>h'.
     andThen (property options ''width'') (\<lambda>w.
     andThen (size_of w) (\<lambda>w'.
       (let g = \<lparr> containerSelector = sel,
                   gradientDirection =
                     (if truthy gd \<and> gd = Str ''vertical'' then Vertical else Horizontal),
                   direction =
                     (if truthy dir \<and> dir = Str ''vertical'' then Vertical else Horizontal),
                   values' = ds,
                   percentages = [],
                   height = h',
                   width = w',
                   clientWidth = fst layout,
                   clientHeight = snd layout,
                   svg = None \<rparr>
        in Inr (g\<lparr>percentages := createPercentages g\<rparr>))))))))))))))"

text \<open>
  \<^verbatim>\<open>draw()\<close>: \<^verbatim>\<open>createContainer\<close> refuses a missing selector, then the \<^verbatim>\<open>svg\<close>
  element is made and the paths are drawn. (The labels it adds are text.)
\<close>

definition draw :: "number \<Rightarrow> graph \<Rightarrow> error + graph" where
  "draw t g =
     (if \<not> truthy (containerSelector g) then Inl ContainerMissing
      else drawPaths t (makeSVG g))"

text \<open>
  The class of a value as \<^verbatim>\<open>Object.prototype.toString.call\<close> names it, which
  \<^verbatim>\<open>updateData\<close> compares between the first new value and the first current one.
\<close>

datatype tag = TUndefined | TNull | TBoolean | TNumber | TString | TArray | TObject

fun tag_of :: "jsval \<Rightarrow> tag" where
  "tag_of Undefined = TUndefined"
| "tag_of Null = TNull"
| "tag_of (Bool _) = TBoolean"
| "tag_of (Num _) = TNumber"
| "tag_of (Str _) = TString"
| "tag_of (Arr _) = TArray"
| "tag_of (Obj _) = TObject"

fun tag_of_first :: "dataset \<Rightarrow> tag" where
  "tag_of_first (OneD []) = TUndefined"
| "tag_of_first (OneD (_ # _)) = TNumber"
| "tag_of_first (TwoD _ _) = TArray"

text \<open>
  \<^verbatim>\<open>updateData(d)\<close>. The branches for \<^verbatim>\<open>d.labels\<close>, \<^verbatim>\<open>d.colors\<close> and
  \<^verbatim>\<open>d.subLabels\<close> change text and paint only, and are left out; the branch for
  \<^verbatim>\<open>d.values\<close> is the one that touches the fields of the graph. \<^verbatim>\<open>d.values[0]\<close> is
  read from an array here, as \<open>dataset_of\<close> admits no other value.
\<close>

definition updateData :: "number \<Rightarrow> jsval \<Rightarrow> graph \<Rightarrow> error + graph" where
  "updateData t d g =
     andThen (property d ''values'') (\<lambda>dv.
       if dv \<noteq> Undefined then
         andThen (getValues d) (\<lambda>vals.
         andThen (dataset_of vals) (\<lambda>ds.
           if tag_of (case dv of Arr xs \<Rightarrow> first xs | _ \<Rightarrow> Undefined)
                \<noteq> tag_of_first (values' g)
           then drawPaths t (makeSVG (g\<lparr>svg := None, values' := ds\<rparr>))
           else drawPaths t (g\<lparr>values' := ds\<rparr>)))
       else Inr g)"

section \<open>Valid datasets and sample graphs\<close>



text \<open>The magnitudes \<^verbatim>\<open>createPercentages\<close> works on (its local \<^verbatim>\<open>values\<close>).\<close>

definition magnitudes :: "graph \<Rightarrow> number list" where
  "magnitudes g = (if is2d g then getValues2d g else scalars g)"

text \<open>
  A control point that lies on an end point: \<open>coincide x1 y1 c\<close> holds when the first
  control point of the curve \<open>c\<close> is its start \<open>(x1, y1)\<close> and the second one is its end,
  which is how a cubic curve is a straight line in the sense of the specification.
\<close>

fun coincide :: "number \<Rightarrow> number \<Rightarrow> instr \<Rightarrow> bool" where
  "coincide x1 y1 (CurveTo a b c d x2 y2) = (a = x1 \<and> b = y1 \<and> c = x2 \<and> d = y2)"
| "coincide x1 y1 _ = False"

text \<open>A horizontal graph with the given values, width and height, not drawn yet.\<close>

definition graph_of :: "dataset \<Rightarrow> number \<Rightarrow> number \<Rightarrow> graph" where
  "graph_of ds w h =
     \<lparr> containerSelector = Str ''.funnel'',
       gradientDirection = Horizontal,
       direction = Horizontal,
       values' = ds,
       percentages = [],
       height = Some h,
       width = Some w,
       clientWidth = Fin 0,
       clientHeight = Fin 0,
       svg = None \<rparr>"

text \<open>Options as a caller writes them, and the layout of a container of 100 by 200.\<close>

definition options_of :: "jsval \<Rightarrow> jsval \<Rightarrow> jsval" where
  "options_of dir vs =
     Obj [(''container'', Str ''.funnel''), (''direction'', dir),
          (''data'', Obj [(''values'', vs)]),
          (''width'', Num (Fin 100)), (''height'', Num (Fin 200))]"

definition nums :: "rat list \<Rightarrow> jsval" where
  "nums rs = Arr (map (\<lambda>r. Num (Fin r)) rs)"

text \<open>
  The first boundary (path "A") as both branches of \<^verbatim>\<open>getCrossAxisPoints\<close> compute it
  from the magnitudes.
\<close>

definition top_of :: "number \<Rightarrow> number list \<Rightarrow> number list" where
  "top_of F vs = map (\<lambda>value. roundPoint ((Math_max vs - value) / Math_max vs * (F / Fin 2)))
     (vs @ [pop vs])"

text \<open>The outline that \<^verbatim>\<open>drawPaths\<close> gives to path \<open>i\<close>.\<close>

definition path_of :: "number \<Rightarrow> graph \<Rightarrow> nat \<Rightarrow> error + instr list" where
  "path_of t g i = (if isVertical g then createVerticalPath t g i else createPath t g i)"

text \<open>Every one of \<open>n\<close> paths has its two boundaries.\<close>

definition drawable :: "graph \<Rightarrow> nat \<Rightarrow> bool" where
  "drawable g n = (\<forall>i \<in> set [0 ..< n]. i + 1 < length (getCrossAxisPoints g))"

text \<open>The other direction.\<close>

fun flip :: "direction \<Rightarrow> direction" where
  "flip Horizontal = Vertical"
| "flip Vertical = Horizontal"

text \<open>A graph on the values 10, 50, 100 after \<^verbatim>\<open>draw()\<close>.\<close>

definition drawn_sample :: graph where
  "drawn_sample =
     projr (draw (Fin (1 / 2)) (graph_of (OneD [Fin 10, Fin 50, Fin 100]) (Fin 100) (Fin 200)))"

text \<open>
  A graph built by the constructor on the values 10, 50, 100, drawn, and then given the
  values 100, 50, 10 by \<^verbatim>\<open>updateData\<close>.
\<close>

definition updated_sample :: "error + graph" where
  "updated_sample =
     andThen (andThen (constructor (options_of (Str ''horizontal'') (nums [10, 50, 100]))
                         (Fin 100, Fin 200))
                (draw (Fin (1 / 2))))
       (updateData (Fin (1 / 2)) (Obj [(''values'', nums [100, 50, 10])]))"

section \<open>Properties of the arithmetic\<close>

lemma minus_Fin [simp]: "Fin a - Fin b = Fin (a - b)"
  by (simp add: minus_number_def)













section \<open>Properties of the axis points\<close>


lemma foldl_boundaries:
  fixes f :: "'a \<Rightarrow> nat \<Rightarrow> 'a"
  shows "length (foldl (\<lambda>ps i. ps @ [f (ps ! (i - 1)) i]) [a] [1 ..< Suc m]) = Suc m
    \<and> foldl (\<lambda>ps i. ps @ [f (ps ! (i - 1)) i]) [a] [1 ..< Suc m] ! 0 = a
    \<and> (\<forall>k. 1 \<le> k \<and> k \<le> m \<longrightarrow>
          foldl (\<lambda>ps i. ps @ [f (ps ! (i - 1)) i]) [a] [1 ..< Suc m] ! k
          = f (foldl (\<lambda>ps i. ps @ [f (ps ! (i - 1)) i]) [a] [1 ..< Suc m] ! (k - 1)) k)"
proof (induction m)
  case 0
  then show ?case by simp
next
  case (Suc m)
  define P where "P = foldl (\<lambda>ps i. ps @ [f (ps ! (i - 1)) i]) [a] [1 ..< Suc m]"
  have step: "foldl (\<lambda>ps i. ps @ [f (ps ! (i - 1)) i]) [a] [1 ..< Suc (Suc m)]
      = P @ [f (P ! m) (Suc m)]"
    by (simp add: P_def)
  have len: "length P = Suc m" and zero: "P ! 0 = a"
    and rec: "\<And>k. 1 \<le> k \<Longrightarrow> k \<le> m \<Longrightarrow> P ! k = f (P ! (k - 1)) k"
    using Suc.IH by (simp_all add: P_def)
  have "\<And>k. 1 \<le> k \<Longrightarrow> k \<le> Suc m \<Longrightarrow>
      (P @ [f (P ! m) (Suc m)]) ! k = f ((P @ [f (P ! m) (Suc m)]) ! (k - 1)) k"
  proof -
    fix k assume k: "1 \<le> k" "k \<le> Suc m"
    show "(P @ [f (P ! m) (Suc m)]) ! k = f ((P @ [f (P ! m) (Suc m)]) ! (k - 1)) k"
    proof (cases "k = Suc m")
      case True
      then show ?thesis using len by (simp add: nth_append)
    next
      case False
      then have "k \<le> m" using k by simp
      then show ?thesis using len rec[OF k(1)] by (auto simp add: nth_append)
    qed
  qed
  then show ?case unfolding step using len zero by (simp add: nth_append)
qed

lemma cross_1d:
  "\<not> is2d g \<Longrightarrow> getCrossAxisPoints g =
     [top_of (getFullDimension g) (scalars g),
      map (\<lambda>point. getFullDimension g - point) (top_of (getFullDimension g) (scalars g))]"
  by (simp add: getCrossAxisPoints_def Let_def top_of_def)

lemma cross_2d:
  "is2d g \<Longrightarrow> getCrossAxisPoints g =
     foldl (\<lambda>points i. points @
         [newPoints (getFullDimension g) (top_of (getFullDimension g) (getValues2d g))
            (getPercentages2d g) (getDataSize g) (points ! (i - 1)) i])
       [top_of (getFullDimension g) (getValues2d g)] [1 ..< getSubDataSize g]
     @ [map (\<lambda>point. getFullDimension g - point)
          (top_of (getFullDimension g) (getValues2d g))]"
  by (simp add: getCrossAxisPoints_def Let_def top_of_def)

lemma length_top_of: "length (top_of F vs) = length vs + 1"
  by (simp add: top_of_def)

lemma snoc_pop_dup: "vs \<noteq> [] \<Longrightarrow> (vs @ [pop vs]) ! length vs = (vs @ [pop vs]) ! (length vs - 1)"
  by (simp add: pop_def nth_append last_conv_nth)

lemma top_of_dup: "vs \<noteq> [] \<Longrightarrow> top_of F vs ! length vs = top_of F vs ! (length vs - 1)"
proof -
  assume ne: "vs \<noteq> []"
  have "length vs < length (vs @ [pop vs])" "length vs - 1 < length (vs @ [pop vs])" by simp_all
  then show ?thesis unfolding top_of_def using snoc_pop_dup[OF ne] by (simp only: nth_map)
qed

lemma length_newPoints: "length (newPoints F fp pf n p i) = n + 1"
  by (simp add: newPoints_def Let_def)


lemma newPoints_dup: "0 < n \<Longrightarrow> newPoints F fp pf n p i ! n = newPoints F fp pf n p i ! (n - 1)"
  by (simp add: newPoints_def Let_def nth_append pop_def last_conv_nth)







lemma cross_length_2d:
  assumes "is2d g"
  shows "length (getCrossAxisPoints g) = (if getSubDataSize g = 0 then 2 else getSubDataSize g + 1)"
proof (cases "getSubDataSize g")
  case 0
  then show ?thesis using assms by (simp add: cross_2d)
next
  case (Suc m)
  then show ?thesis using assms foldl_boundaries[of _ _ m, THEN conjunct1]
    by (simp add: cross_2d del: upt_Suc)
qed

lemma cross_first_last:
  "getCrossAxisPoints g ! 0 = top_of (getFullDimension g) (magnitudes g)
   \<and> last (getCrossAxisPoints g)
       = map (\<lambda>point. getFullDimension g - point) (top_of (getFullDimension g) (magnitudes g))
   \<and> length (getCrossAxisPoints g)
       = (if is2d g \<and> getSubDataSize g \<noteq> 0 then getSubDataSize g + 1 else 2)"
proof (cases "is2d g")
  case False
  then show ?thesis by (simp add: cross_1d magnitudes_def)
next
  case True
  show ?thesis
  proof (cases "getSubDataSize g")
    case 0
    then show ?thesis using True by (simp add: cross_2d magnitudes_def)
  next
    case (Suc m)
    note fb = foldl_boundaries[where m = m
        and a = "top_of (getFullDimension g) (getValues2d g)"
        and f = "newPoints (getFullDimension g) (top_of (getFullDimension g) (getValues2d g))
            (getPercentages2d g) (getDataSize g)"]
    show ?thesis using True Suc fb[THEN conjunct1] fb[THEN conjunct2, THEN conjunct1]
      by (simp add: cross_2d magnitudes_def nth_append del: upt_Suc)
  qed
qed




lemma round_half_away_of_int: "round_half_away (of_int k) = k"
proof -
  have "\<lfloor>(of_int k :: rat) + 1 / 2\<rfloor> = k" by (simp add: floor_eq_iff)
  moreover have "\<lfloor>- (of_int k :: rat) + 1 / 2\<rfloor> = - k"
    using floor_eq_iff[of "- (of_int k :: rat) + 1 / 2" "- k"] by simp
  ultimately show ?thesis by (simp add: round_half_away_def)
qed

lemma round_half_away_numeral [simp]: "round_half_away (numeral w) = numeral w"
  using round_half_away_of_int[of "numeral w"] by simp

lemma round_half_away_zero [simp]: "round_half_away 0 = 0"
  using round_half_away_of_int[of 0] by simp




section \<open>Properties of the percentages\<close>










section \<open>Properties of the stacked boundaries\<close>




lemma cross_2d_boundaries:
  assumes "is2d g" and "getSubDataSize g = Suc m"
  shows "length (getCrossAxisPoints g) = Suc (Suc m)
    \<and> getCrossAxisPoints g ! 0 = top_of (getFullDimension g) (getValues2d g)
    \<and> (\<forall>k. 1 \<le> k \<and> k \<le> m \<longrightarrow>
          getCrossAxisPoints g ! k
          = newPoints (getFullDimension g) (top_of (getFullDimension g) (getValues2d g))
              (getPercentages2d g) (getDataSize g) (getCrossAxisPoints g ! (k - 1)) k)
    \<and> getCrossAxisPoints g ! Suc m
        = map (\<lambda>point. getFullDimension g - point) (top_of (getFullDimension g) (getValues2d g))"
proof -
  define P where "P = foldl (\<lambda>points i. points @
         [newPoints (getFullDimension g) (top_of (getFullDimension g) (getValues2d g))
            (getPercentages2d g) (getDataSize g) (points ! (i - 1)) i])
       [top_of (getFullDimension g) (getValues2d g)] [1 ..< Suc m]"
  note fb = foldl_boundaries[where m = m
      and a = "top_of (getFullDimension g) (getValues2d g)"
      and f = "newPoints (getFullDimension g) (top_of (getFullDimension g) (getValues2d g))
          (getPercentages2d g) (getDataSize g)", folded P_def]
  have pts: "getCrossAxisPoints g
      = P @ [map (\<lambda>point. getFullDimension g - point)
               (top_of (getFullDimension g) (getValues2d g))]"
    using assms by (simp add: cross_2d P_def del: upt_Suc)
  have len: "length P = Suc m" and zero: "P ! 0 = top_of (getFullDimension g) (getValues2d g)"
    using fb by simp_all
  have rec: "P ! k = newPoints (getFullDimension g) (top_of (getFullDimension g) (getValues2d g))
              (getPercentages2d g) (getDataSize g) (P ! (k - 1)) k"
    if "1 \<le> k" "k \<le> m" for k
    using fb that by blast
  have low: "(P @ ys) ! k = P ! k" if "k \<le> m" for k ys
    using that len by (simp add: nth_append)
  have "getCrossAxisPoints g ! k
      = newPoints (getFullDimension g) (top_of (getFullDimension g) (getValues2d g))
          (getPercentages2d g) (getDataSize g) (getCrossAxisPoints g ! (k - 1)) k"
    if "1 \<le> k \<and> k \<le> m" for k
  proof -
    have "k - 1 \<le> m" using that by linarith
    then show ?thesis unfolding pts using that rec[of k] low[of k] low[of "k - 1"] by simp
  qed
  moreover have "getCrossAxisPoints g ! Suc m
      = map (\<lambda>point. getFullDimension g - point) (top_of (getFullDimension g) (getValues2d g))"
    unfolding pts using len by (simp add: nth_append)
  ultimately show ?thesis unfolding pts using len zero low[of 0] by simp
qed

lemma cross_2d_lengths:
  assumes "is2d g" and "getSubDataSize g = Suc m" and "k \<le> Suc m"
  shows "length (getCrossAxisPoints g ! k) = getDataSize g + 1"
proof -
  note b = cross_2d_boundaries[OF assms(1,2)]
  have n: "length (getValues2d g) = getDataSize g"
    using assms(1) by (cases "values' g") (simp_all add: is2d_def getValues2d_def rows_def getDataSize_def)
  consider "k = 0" | "1 \<le> k" "k \<le> m" | "k = Suc m" using assms(3) by linarith
  then show ?thesis
  proof cases
    case 1
    then show ?thesis using b n by (simp add: length_top_of)
  next
    case 2
    then have "getCrossAxisPoints g ! k
      = newPoints (getFullDimension g) (top_of (getFullDimension g) (getValues2d g))
          (getPercentages2d g) (getDataSize g) (getCrossAxisPoints g ! (k - 1)) k"
      using b by blast
    then show ?thesis by (simp add: length_newPoints)
  next
    case 3
    then show ?thesis using b n by (simp add: length_top_of)
  qed
qed



lemma cross_2d_dup:
  assumes "is2d g" and "getSubDataSize g = Suc m" and "k \<le> Suc m"
  shows "getCrossAxisPoints g ! k ! getDataSize g = getCrossAxisPoints g ! k ! (getDataSize g - 1)"
proof -
  note b = cross_2d_boundaries[OF assms(1,2)]
  have n: "length (getValues2d g) = getDataSize g" and ne: "getValues2d g \<noteq> []"
    and pos: "0 < getDataSize g"
    using assms(1)
    by (cases "values' g"; simp add: is2d_def getValues2d_def rows_def getDataSize_def)+
  note td = top_of_dup[OF ne, of "getFullDimension g", unfolded n]
  consider "k = 0" | "1 \<le> k" "k \<le> m" | "k = Suc m" using assms(3) by linarith
  then show ?thesis
  proof cases
    case 1
    then show ?thesis using b td by simp
  next
    case 2
    then have "getCrossAxisPoints g ! k
      = newPoints (getFullDimension g) (top_of (getFullDimension g) (getValues2d g))
          (getPercentages2d g) (getDataSize g) (getCrossAxisPoints g ! (k - 1)) k"
      using b by blast
    then show ?thesis using newPoints_dup[OF pos] by simp
  next
    case 3
    have "getDataSize g < length (top_of (getFullDimension g) (getValues2d g))"
      "getDataSize g - 1 < length (top_of (getFullDimension g) (getValues2d g))"
      using n by (simp_all add: length_top_of)
    then show ?thesis using 3 b td by (simp only: nth_map)
  qed
qed



section \<open>Properties of the outlines\<close>

lemma length_getMainAxisPoints: "length (getMainAxisPoints g) = getDataSize g + 1"
  by (simp add: getMainAxisPoints_def Let_def)

lemma last_of_two: "length xs = 2 \<Longrightarrow> xs ! 1 = last xs"
proof -
  assume two: "length xs = 2"
  then have "xs \<noteq> []" by auto
  then have "last xs = xs ! (length xs - 1)" by (rule last_conv_nth)
  then show ?thesis using two by simp
qed

lemma boundary_shape:
  assumes "0 < getDataSize g" and "k < length (getCrossAxisPoints g)"
  shows "length (getCrossAxisPoints g ! k) = getDataSize g + 1
    \<and> getCrossAxisPoints g ! k ! getDataSize g = getCrossAxisPoints g ! k ! (getDataSize g - 1)"
proof (cases "is2d g \<and> getSubDataSize g \<noteq> 0")
  case True
  then obtain m where m: "getSubDataSize g = Suc m" by (cases "getSubDataSize g") simp_all
  have "k \<le> Suc m" using assms(2) cross_first_last[of g] True m by simp
  then show ?thesis using True cross_2d_lengths[OF _ m] cross_2d_dup[OF _ m] by simp
next
  case False
  have n: "length (magnitudes g) = getDataSize g"
    by (cases "values' g")
      (simp_all add: magnitudes_def is2d_def scalars_def getValues2d_def rows_def getDataSize_def)
  then have ne: "magnitudes g \<noteq> []" using assms(1) by auto
  define top where "top = top_of (getFullDimension g) (magnitudes g)"
  have len: "length top = getDataSize g + 1" by (simp add: top_def length_top_of n)
  have dup: "top ! getDataSize g = top ! (getDataSize g - 1)"
    using top_of_dup[OF ne, of "getFullDimension g"] by (simp add: top_def n)
  have two: "length (getCrossAxisPoints g) = 2" and zero: "getCrossAxisPoints g ! 0 = top"
    and lst: "last (getCrossAxisPoints g) = map (\<lambda>point. getFullDimension g - point) top"
    using cross_first_last[of g] False by (auto simp: top_def)
  have one: "getCrossAxisPoints g ! 1 = map (\<lambda>point. getFullDimension g - point) top"
    using last_of_two[OF two] lst by simp
  have i: "getDataSize g < length top" "getDataSize g - 1 < length top" using len by simp_all
  have bdup: "map (\<lambda>point. getFullDimension g - point) top ! getDataSize g
      = map (\<lambda>point. getFullDimension g - point) top ! (getDataSize g - 1)"
    using dup i by (simp only: nth_map)
  consider "k = 0" | "k = 1" using assms(2) two by linarith
  then show ?thesis
  proof cases
    case 1
    then show ?thesis using zero len dup by simp
  next
    case 2
    then show ?thesis using one len bdup by simp
  qed
qed

lemma outline_nth:
  assumes "length A = n" and "length B = n"
  shows "([m] @ A @ [l] @ B @ [z]) ! 0 = m"
    and "\<And>i. i < n \<Longrightarrow> ([m] @ A @ [l] @ B @ [z]) ! (i + 1) = A ! i"
    and "([m] @ A @ [l] @ B @ [z]) ! (n + 1) = l"
    and "\<And>i. i < n \<Longrightarrow> ([m] @ A @ [l] @ B @ [z]) ! (n + 2 + i) = B ! i"
    and "([m] @ A @ [l] @ B @ [z]) ! (2 * n + 2) = z"
    and "length ([m] @ A @ [l] @ B @ [z]) = 2 * n + 3"
  using assms by (auto simp: nth_append nth_Cons')

lemma rev_upt_nth: "i < n \<Longrightarrow> rev [1 ..< n + 1] ! i = n - i"
  by (simp add: rev_nth del: upt_Suc)

lemma createPath_unfold:
  assumes "getDataSize g = n" and "index + 1 < length (getCrossAxisPoints g)"
  shows "createPath t g index = Inr (
         [MoveTo (getMainAxisPoints g ! 0) (getCrossAxisPoints g ! index ! 0)]
       @ map (\<lambda>i. createCurves t (getMainAxisPoints g ! i) (getCrossAxisPoints g ! index ! i)
                    (getMainAxisPoints g ! (i + 1)) (getCrossAxisPoints g ! index ! (i + 1)))
           [0 ..< n]
       @ [LineTo (getMainAxisPoints g ! n) (getCrossAxisPoints g ! (index + 1) ! n)]
       @ map (\<lambda>i. createCurves t (getMainAxisPoints g ! i) (getCrossAxisPoints g ! (index + 1) ! i)
                    (getMainAxisPoints g ! (i - 1)) (getCrossAxisPoints g ! (index + 1) ! (i - 1)))
           (rev [1 ..< n + 1])
       @ [ClosePath])"
proof -
  have lx: "length (getMainAxisPoints g) = n + 1" using assms(1) by (simp add: length_getMainAxisPoints)
  then have x: "last (getMainAxisPoints g) = getMainAxisPoints g ! n"
    by (cases "getMainAxisPoints g" rule: rev_cases) (simp_all add: nth_append)
  have ly: "length (getCrossAxisPoints g ! (index + 1)) = n + 1"
  proof (cases "n = 0")
    case False
    then show ?thesis using boundary_shape[of g "index + 1"] assms by simp
  next
    case True
    have mag: "magnitudes g = []" using True assms(1)
      by (cases "values' g")
        (simp_all add: magnitudes_def is2d_def scalars_def getDataSize_def)
    have "\<not> is2d g" using True assms(1) by (cases "values' g") (simp_all add: is2d_def getDataSize_def)
    then have "length (getCrossAxisPoints g) = 2"
      and "last (getCrossAxisPoints g)
        = map (\<lambda>point. getFullDimension g - point) (top_of (getFullDimension g) (magnitudes g))"
      using cross_first_last[of g] by simp_all
    moreover from this assms(2) have "index = 0" by simp
    ultimately have "getCrossAxisPoints g ! (index + 1)
        = map (\<lambda>point. getFullDimension g - point) (top_of (getFullDimension g) (magnitudes g))"
      using last_of_two[of "getCrossAxisPoints g"] by simp
    then show ?thesis using True mag by (simp add: length_top_of)
  qed
  then have y: "last (getCrossAxisPoints g ! (index + 1)) = getCrossAxisPoints g ! (index + 1) ! n"
    by (cases "getCrossAxisPoints g ! (index + 1)" rule: rev_cases) (simp_all add: nth_append)
  show ?thesis
    unfolding createPath_def Let_def using assms(2) lx x y by (simp del: upt_Suc)
qed

text \<open>
  Claim C5, amended. For a dataset of \<open>N \<ge> 1\<close> segments and a pair of neighbouring
  boundaries \<open>Y\<close>, \<open>YNext\<close>, \<^verbatim>\<open>createPath\<close> returns an outline of \<open>2 * N + 3\<close>
  instructions: a move, \<open>N\<close> curves forward along \<open>Y\<close>, a line to the end of \<open>YNext\<close>,
  \<open>N\<close> curves back along \<open>YNext\<close>, and the closing instruction. Every curve, the one at
  the final main-axis index included, is what \<^verbatim>\<open>createCurves\<close> makes of its two end
  points. At the final index the two end points have the same cross coordinate (the
  duplicated last value), so that curve is flat: its control points carry that cross
  coordinate too, and are offset along the main axis as in every other segment.
\<close>

theorem createPath_segments:
  assumes "getDataSize g = N" and "0 < N" and "index + 1 < length (getCrossAxisPoints g)"
    and "X = getMainAxisPoints g" and "Y = getCrossAxisPoints g ! index"
    and "YNext = getCrossAxisPoints g ! (index + 1)"
    and "outline = projr (createPath t g index)"
  shows "\<not> isl (createPath t g index)
    \<and> length outline = 2 * N + 3
    \<and> outline ! 0 = MoveTo (X ! 0) (Y ! 0)
    \<and> (\<forall>i. i < N \<longrightarrow>
          outline ! (i + 1) = createCurves t (X ! i) (Y ! i) (X ! (i + 1)) (Y ! (i + 1)))
    \<and> outline ! (N + 1) = LineTo (X ! N) (YNext ! N)
    \<and> (\<forall>i. i < N \<longrightarrow>
          outline ! (N + 2 + i)
          = createCurves t (X ! (N - i)) (YNext ! (N - i)) (X ! (N - i - 1)) (YNext ! (N - i - 1)))
    \<and> outline ! (2 * N + 2) = ClosePath
    \<and> outline ! N
        = CurveTo (roundPoint (X ! (N - 1) + (X ! N - X ! (N - 1)) * t)) (Y ! N)
            (roundPoint (X ! N - (X ! N - X ! (N - 1)) * t)) (Y ! N) (X ! N) (Y ! N)
    \<and> outline ! (N + 2)
        = CurveTo (roundPoint (X ! N + (X ! (N - 1) - X ! N) * t)) (YNext ! N)
            (roundPoint (X ! (N - 1) - (X ! (N - 1) - X ! N) * t)) (YNext ! N)
            (X ! (N - 1)) (YNext ! N)"
proof -
  define A where "A = map (\<lambda>i. createCurves t (X ! i) (Y ! i) (X ! (i + 1)) (Y ! (i + 1))) [0 ..< N]"
  define B where "B = map (\<lambda>i. createCurves t (X ! i) (YNext ! i) (X ! (i - 1)) (YNext ! (i - 1)))
      (rev [1 ..< N + 1])"
  have path: "createPath t g index
      = Inr ([MoveTo (X ! 0) (Y ! 0)] @ A @ [LineTo (X ! N) (YNext ! N)] @ B @ [ClosePath])"
    unfolding A_def B_def assms(4,5,6) using assms(1,3) by (rule createPath_unfold)
  then have out: "outline = [MoveTo (X ! 0) (Y ! 0)] @ A @ [LineTo (X ! N) (YNext ! N)] @ B @ [ClosePath]"
    using assms(7) by simp
  have la: "length A = N" and lb: "length B = N" by (simp_all add: A_def B_def)
  note nth = outline_nth[OF la lb, where m = "MoveTo (X ! 0) (Y ! 0)"
      and l = "LineTo (X ! N) (YNext ! N)" and z = ClosePath, folded out]
  have a: "A ! i = createCurves t (X ! i) (Y ! i) (X ! (i + 1)) (Y ! (i + 1))" if "i < N" for i
    unfolding A_def using that by simp
  have b: "B ! i = createCurves t (X ! (N - i)) (YNext ! (N - i)) (X ! (N - i - 1))
      (YNext ! (N - i - 1))" if "i < N" for i
  proof -
    have "i < length (rev [1 ..< N + 1])" using that by simp
    then show ?thesis unfolding B_def using rev_upt_nth[OF that] by (simp only: nth_map)
  qed
  have idx: "index < length (getCrossAxisPoints g)" using assms(3) by simp
  have dy: "Y ! N = Y ! (N - 1)"
    using boundary_shape[of g index] idx assms(1,2,5) by simp
  have dn: "YNext ! N = YNext ! (N - 1)"
    using boundary_shape[of g "index + 1"] assms(1,2,3,6) by simp
  have fwd: "outline ! (i + 1) = createCurves t (X ! i) (Y ! i) (X ! (i + 1)) (Y ! (i + 1))"
    if "i < N" for i using nth(2)[OF that] a[OF that] by simp
  have bwd: "outline ! (N + 2 + i)
      = createCurves t (X ! (N - i)) (YNext ! (N - i)) (X ! (N - i - 1)) (YNext ! (N - i - 1))"
    if "i < N" for i using nth(4)[OF that] b[OF that] by simp
  have final: "outline ! N
      = CurveTo (roundPoint (X ! (N - 1) + (X ! N - X ! (N - 1)) * t)) (Y ! N)
          (roundPoint (X ! N - (X ! N - X ! (N - 1)) * t)) (Y ! N) (X ! N) (Y ! N)"
    using fwd[of "N - 1"] assms(2) dy by (simp add: createCurves_def)
  have ret: "outline ! (N + 2)
      = CurveTo (roundPoint (X ! N + (X ! (N - 1) - X ! N) * t)) (YNext ! N)
          (roundPoint (X ! (N - 1) - (X ! (N - 1) - X ! N) * t)) (YNext ! N)
          (X ! (N - 1)) (YNext ! N)"
    using bwd[of 0] assms(2) dn by (simp add: createCurves_def)
  show ?thesis using path nth(1,3,5,6) fwd bwd final ret by simp
qed

theorem createPath_segments_witness:
  "getDataSize (graph_of (OneD [Fin 10, Fin 20, Fin 30, Fin 40]) (Fin 100) (Fin 200)) = 4
   \<and> length (projr (createPath (Fin (1 / 2))
         (graph_of (OneD [Fin 10, Fin 20, Fin 30, Fin 40]) (Fin 100) (Fin 200)) 0)) = 11
   \<and> projr (createPath (Fin (1 / 2))
         (graph_of (OneD [Fin 10, Fin 20, Fin 30, Fin 40]) (Fin 100) (Fin 200)) 0) ! 4
       = CurveTo (roundPoint (Fin 75 + (Fin 100 - Fin 75) * Fin (1 / 2))) (Fin 0)
           (roundPoint (Fin 100 - (Fin 100 - Fin 75) * Fin (1 / 2))) (Fin 0) (Fin 100) (Fin 0)"
proof -
  let ?g = "graph_of (OneD [Fin 10, Fin 20, Fin 30, Fin 40]) (Fin 100) (Fin 200)"
  have n: "getDataSize ?g = 4" by code_simp
  have i: "0 + 1 < length (getCrossAxisPoints ?g)" by code_simp
  have x: "[Fin 0, Fin 25, Fin 50, Fin 75, Fin 100] = getMainAxisPoints ?g" by code_simp
  have y: "[Fin 75, Fin 50, Fin 25, Fin 0, Fin 0] = getCrossAxisPoints ?g ! 0" by code_simp
  note a = createPath_segments[OF n _ i x y refl refl, of "Fin (1 / 2)"]
  have "length (projr (createPath (Fin (1 / 2)) ?g 0)) = 11" using a by simp
  moreover have "projr (createPath (Fin (1 / 2)) ?g 0) ! 4
       = CurveTo (roundPoint (Fin 75 + (Fin 100 - Fin 75) * Fin (1 / 2))) (Fin 0)
           (roundPoint (Fin 100 - (Fin 100 - Fin 75) * Fin (1 / 2))) (Fin 0) (Fin 100) (Fin 0)"
    using a by simp
  ultimately show ?thesis using n by (intro conjI)
qed

text \<open>
  Four segments, width 100, height 200, control points at one half of the span: the curve
  at the final index runs from (75, 0) to (100, 0) with both control points at (88, 0),
  and the first curve of the return runs from (100, 200) to (75, 200) with both control
  points at (88, 200). Neither has its control points on its end points.
\<close>

theorem createPath_final_counterexample:
  "createPath (Fin (1 / 2)) (graph_of (OneD [Fin 10, Fin 20, Fin 30, Fin 40]) (Fin 100) (Fin 200)) 0
     = Inr [MoveTo (Fin 0) (Fin 75),
            CurveTo (Fin 13) (Fin 75) (Fin 13) (Fin 50) (Fin 25) (Fin 50),
            CurveTo (Fin 38) (Fin 50) (Fin 38) (Fin 25) (Fin 50) (Fin 25),
            CurveTo (Fin 63) (Fin 25) (Fin 63) (Fin 0) (Fin 75) (Fin 0),
            CurveTo (Fin 88) (Fin 0) (Fin 88) (Fin 0) (Fin 100) (Fin 0),
            LineTo (Fin 100) (Fin 200),
            CurveTo (Fin 88) (Fin 200) (Fin 88) (Fin 200) (Fin 75) (Fin 200),
            CurveTo (Fin 63) (Fin 200) (Fin 63) (Fin 175) (Fin 50) (Fin 175),
            CurveTo (Fin 38) (Fin 175) (Fin 38) (Fin 150) (Fin 25) (Fin 150),
            CurveTo (Fin 13) (Fin 150) (Fin 13) (Fin 125) (Fin 0) (Fin 125),
            ClosePath]
   \<and> \<not> coincide (Fin 75) (Fin 0) (CurveTo (Fin 88) (Fin 0) (Fin 88) (Fin 0) (Fin 100) (Fin 0))
   \<and> \<not> coincide (Fin 100) (Fin 200)
         (CurveTo (Fin 88) (Fin 200) (Fin 88) (Fin 200) (Fin 75) (Fin 200))"
  by code_simp

section \<open>Properties of the methods that redraw\<close>

lemma fields_svg [simp]:
  "is2d (g\<lparr>svg := s\<rparr>) = is2d g"
  "isVertical (g\<lparr>svg := s\<rparr>) = isVertical g"
  "getWidth (g\<lparr>svg := s\<rparr>) = getWidth g"
  "getHeight (g\<lparr>svg := s\<rparr>) = getHeight g"
  "getDataSize (g\<lparr>svg := s\<rparr>) = getDataSize g"
  "getSubDataSize (g\<lparr>svg := s\<rparr>) = getSubDataSize g"
  "rows (g\<lparr>svg := s\<rparr>) = rows g"
  "scalars (g\<lparr>svg := s\<rparr>) = scalars g"
  by (simp_all add: is2d_def isVertical_def getWidth_def getHeight_def getDataSize_def
      getSubDataSize_def rows_def scalars_def)

lemma derived_svg [simp]:
  "getFullDimension (g\<lparr>svg := s\<rparr>) = getFullDimension g"
  "getValues2d (g\<lparr>svg := s\<rparr>) = getValues2d g"
  "getPercentages2d (g\<lparr>svg := s\<rparr>) = getPercentages2d g"
  by (simp_all add: getFullDimension_def getValues2d_def getPercentages2d_def)

lemma geometry_svg [simp]:
  "getCrossAxisPoints (g\<lparr>svg := s\<rparr>) = getCrossAxisPoints g"
  "getMainAxisPoints (g\<lparr>svg := s\<rparr>) = getMainAxisPoints g"
  by (cases "is2d g"; simp add: cross_1d cross_2d getMainAxisPoints_def Let_def)+

lemma paths_svg [simp]:
  "createPath t (g\<lparr>svg := s\<rparr>) i = createPath t g i"
  "createVerticalPath t (g\<lparr>svg := s\<rparr>) i = createVerticalPath t g i"
  by (simp_all add: createPath_def createVerticalPath_def)

lemma cross_length_direction [simp]:
  "length (getCrossAxisPoints (g\<lparr>direction := d\<rparr>)) = length (getCrossAxisPoints g)"
  using cross_first_last[of g] cross_first_last[of "g\<lparr>direction := d\<rparr>"]
  by (simp add: is2d_def getSubDataSize_def)

lemma collect_guarded:
  "collect (map (\<lambda>i. if P i then Inr (h i) else Inl e) xs)
     = (if \<forall>i \<in> set xs. P i then Inr (map h xs) else Inl e)"
  by (induction xs) simp_all

lemma path_of_guarded:
  "path_of t g i = (if i + 1 < length (getCrossAxisPoints g)
     then Inr (projr (path_of t g i)) else Inl TypeError)"
  by (simp add: path_of_def createPath_def createVerticalPath_def Let_def)

lemma path_of_svg [simp]: "path_of t (g\<lparr>svg := s\<rparr>) i = path_of t g i"
  by (simp add: path_of_def)

lemma drawPaths_explicit:
  "drawPaths t g =
     (case svg g of
        None \<Rightarrow> Inl NoSVG
      | Some paths \<Rightarrow>
          if drawable g (length paths)
          then Inr (g\<lparr>svg := Some (map (\<lambda>i. projr (path_of t g i)) [0 ..< length paths])\<rparr>)
          else Inl TypeError)"
proof (cases "svg g")
  case None
  then show ?thesis by (simp add: drawPaths_def getSVG_def andThen_def)
next
  case (Some paths)
  have "collect (map (path_of t g) [0 ..< length paths])
      = collect (map (\<lambda>i. if i + 1 < length (getCrossAxisPoints g)
           then Inr (projr (path_of t g i)) else Inl TypeError) [0 ..< length paths])"
    using path_of_guarded[of t g] by simp
  also have "\<dots> = (if drawable g (length paths)
      then Inr (map (\<lambda>i. projr (path_of t g i)) [0 ..< length paths]) else Inl TypeError)"
    unfolding drawable_def by (rule collect_guarded)
  finally have "collect (map (\<lambda>i. if isVertical g then createVerticalPath t g i
        else createPath t g i) [0 ..< length paths])
      = (if drawable g (length paths)
         then Inr (map (\<lambda>i. projr (path_of t g i)) [0 ..< length paths]) else Inl TypeError)"
    by (simp add: path_of_def[abs_def])
  then show ?thesis using Some by (simp add: drawPaths_def getSVG_def andThen_def)
qed

lemma toggleDirection_redraw:
  "toggleDirection t g = drawPaths t (g\<lparr>direction := flip (direction g)\<rparr>)"
proof (cases "direction g")
  case Horizontal
  then show ?thesis
    by (cases "svg g")
      (simp_all add: toggleDirection_def makeVertical_def getSVG_def andThen_def drawPaths_def)
next
  case Vertical
  then show ?thesis
    by (cases "svg g")
      (simp_all add: toggleDirection_def makeHorizontal_def getSVG_def andThen_def drawPaths_def)
qed

lemma drawable_update [simp]:
  "drawable (g\<lparr>direction := d\<rparr>) n = drawable g n"
  "drawable (g\<lparr>svg := s\<rparr>) n = drawable g n"
  by (simp_all add: drawable_def)

lemma toggleDirection_twice_redraws:
  "andThen (toggleDirection t g) (toggleDirection t) = drawPaths t g"
proof (cases "svg g")
  case None
  then show ?thesis
    by (simp add: toggleDirection_redraw drawPaths_explicit andThen_def)
next
  case (Some paths)
  show ?thesis
  proof (cases "drawable g (length paths)")
    case False
    then show ?thesis using Some
      by (simp add: toggleDirection_redraw drawPaths_explicit andThen_def)
  next
    case True
    define g1 where "g1 = g\<lparr>direction := flip (direction g),
      svg := Some (map (\<lambda>i. projr (path_of t (g\<lparr>direction := flip (direction g)\<rparr>) i))
        [0 ..< length paths])\<rparr>"
    have one: "toggleDirection t g = Inr g1"
      using Some True by (simp add: toggleDirection_redraw drawPaths_explicit g1_def)
    have restored: "g1\<lparr>direction := flip (direction g1)\<rparr>
        = g\<lparr>svg := Some (map (\<lambda>i. projr (path_of t (g\<lparr>direction := flip (direction g)\<rparr>) i))
            [0 ..< length paths])\<rparr>"
      by (cases "direction g") (simp_all add: g1_def)
    have two: "toggleDirection t g1
        = Inr (g\<lparr>svg := Some (map (\<lambda>i. projr (path_of t g i)) [0 ..< length paths])\<rparr>)"
      unfolding toggleDirection_redraw[of t g1] restored using True
      by (simp add: drawPaths_explicit)
    show ?thesis using one two Some True by (simp add: andThen_def drawPaths_explicit)
  qed
qed

lemma toggleDirection_direction:
  assumes "toggleDirection t g = Inr g1"
  shows "direction g1 = flip (direction g)"
  using assms unfolding toggleDirection_redraw drawPaths_explicit
  by (auto split: option.splits if_splits)

text \<open>
  Claim C7. On a graph whose outlines are drawn (redrawing changes nothing), toggling the
  direction twice succeeds and gives back the very same graph: the first toggle changes
  the direction, the second restores it, and the main-axis points, the cross-axis
  boundaries and the outlines held by the \<^verbatim>\<open>svg\<close> element are those from before.
\<close>

theorem toggleDirection_twice:
  assumes "drawPaths t g = Inr g"
  shows "andThen (toggleDirection t g) (toggleDirection t) = Inr g
    \<and> \<not> isl (toggleDirection t g)
    \<and> direction (projr (toggleDirection t g)) \<noteq> direction g
    \<and> getMainAxisPoints (projr (andThen (toggleDirection t g) (toggleDirection t)))
        = getMainAxisPoints g
    \<and> getCrossAxisPoints (projr (andThen (toggleDirection t g) (toggleDirection t)))
        = getCrossAxisPoints g
    \<and> svg (projr (andThen (toggleDirection t g) (toggleDirection t))) = svg g"
proof -
  have twice: "andThen (toggleDirection t g) (toggleDirection t) = Inr g"
    using toggleDirection_twice_redraws[of t g] assms by simp
  then obtain g1 where g1: "toggleDirection t g = Inr g1"
    by (cases "toggleDirection t g") (simp_all add: andThen_def)
  have "direction g1 = flip (direction g)" using g1 by (rule toggleDirection_direction)
  then have "direction g1 \<noteq> direction g" by (cases "direction g") simp_all
  then show ?thesis using twice g1 by simp
qed

theorem toggleDirection_twice_witness:
  "drawPaths (Fin (1 / 2)) drawn_sample = Inr drawn_sample
   \<and> direction drawn_sample = Horizontal
   \<and> direction (projr (toggleDirection (Fin (1 / 2)) drawn_sample)) = Vertical
   \<and> andThen (toggleDirection (Fin (1 / 2)) drawn_sample) (toggleDirection (Fin (1 / 2)))
       = Inr drawn_sample"
proof -
  have d: "drawPaths (Fin (1 / 2)) drawn_sample = Inr drawn_sample" by code_simp
  have h: "direction drawn_sample = Horizontal" by code_simp
  note a = toggleDirection_twice[OF d]
  have "direction (projr (toggleDirection (Fin (1 / 2)) drawn_sample)) \<noteq> Horizontal"
    using a h by simp
  then have v: "direction (projr (toggleDirection (Fin (1 / 2)) drawn_sample)) = Vertical"
    by (cases "direction (projr (toggleDirection (Fin (1 / 2)) drawn_sample))") simp_all
  show ?thesis using d h v a by (intro conjI) simp_all
qed

section \<open>Properties of the constructor and of the update\<close>



text \<open>
  Claim C8, at a failing input. A graph is built on the values 10, 50, 100 and drawn; its
  percentages are 10, 50, 100. \<^verbatim>\<open>updateData\<close> then replaces the values by 100, 50, 10.
  The graph holds the new values, and the old percentages: the percentage formula on the
  values now held gives 100, 50, 10.
\<close>

theorem updateData_stale_percentages:
  "\<not> isl updated_sample
   \<and> values' (projr updated_sample) = OneD [Fin 100, Fin 50, Fin 10]
   \<and> percentages (projr updated_sample) = [Fin 10, Fin 50, Fin 100]
   \<and> createPercentages (projr updated_sample) = [Fin 100, Fin 50, Fin 10]"
  by code_simp

text \<open>
  Claim C9, at a failing input. The flat sequence 1.5, 2 is not returned: its first
  number is not an integer, so \<^verbatim>\<open>getValues\<close> reads the property \<^verbatim>\<open>value\<close> of each
  number and returns undefined twice. The sequence 1, 2.5, whose non-integer comes
  second, is returned as it is, and so is 1.5, 2 when it comes as the \<^verbatim>\<open>values\<close> of a
  record.
\<close>

theorem getValues_fraction_first:
  "getValues (nums [3 / 2, 2]) = Inr (Arr [Undefined, Undefined])
   \<and> getValues (nums [1, 5 / 2]) = Inr (nums [1, 5 / 2])
   \<and> getValues (Obj [(''values'', nums [3 / 2, 2])]) = Inr (nums [3 / 2, 2])"
  by code_simp

end
